theory Spec2Isabelle
  imports Complex_Main
begin

section \<open>Numbers\<close>

text \<open>
  The program computes on Python numbers. Finite values are idealised as reals
  (no binary rounding error); the two non-finite values the program itself
  produces are kept: \<open>np.inf\<close> for a cost per click or per action without
  clicks or actions, and the NaN that the mean of an empty selection is.
\<close>

datatype fnum = Fin real | PInf | NInf | NaN

text \<open>The product of a number with a finite constant, as IEEE arithmetic gives it.\<close>

fun fmul :: "fnum \<Rightarrow> real \<Rightarrow> fnum" where
  "fmul (Fin a) c = Fin (a * c)"
| "fmul PInf c = (if 0 < c then PInf else if c < 0 then NInf else NaN)"
| "fmul NInf c = (if 0 < c then NInf else if c < 0 then PInf else NaN)"
| "fmul NaN c = NaN"

text \<open>\<open>x > y\<close>: every comparison with NaN is false.\<close>

fun fgt :: "fnum \<Rightarrow> fnum \<Rightarrow> bool" where
  "fgt NaN y = False"
| "fgt x NaN = False"
| "fgt (Fin a) (Fin b) = (b < a)"
| "fgt (Fin a) PInf = False"
| "fgt (Fin a) NInf = True"
| "fgt PInf PInf = False"
| "fgt PInf y = True"
| "fgt NInf y = False"

text \<open>
  Python's \<open>round(x)\<close> with one argument: the nearest integer, a tie going to the
  even neighbour.
\<close>

definition py_round :: "real \<Rightarrow> int" where
  "py_round x =
     (let f = \<lfloor>x\<rfloor>; d = x - of_int f
      in if d < 1 / 2 then f
         else if 1 / 2 < d then f + 1
         else if even f then f else f + 1)"

text \<open>\<open>round(x, 2)\<close>, idealised: the nearest multiple of 1/100.\<close>

definition py_round2 :: "real \<Rightarrow> real" where
  "py_round2 x = of_int (py_round (x * 100)) / 100"

section \<open>Data\<close>

text \<open>
  A cell of a numeric column, as \<open>pd.to_numeric(..., errors='coerce')\<close> reads it:
  a number, or something that is no number (which becomes NaN). A cell of the
  \<open>create_time\<close> column, as \<open>pd.to_datetime(..., errors='coerce')\<close> reads it: a
  point in time, in nanoseconds, or \<open>NaT\<close>.
\<close>

datatype cell = Numeric real | NonNumeric

datatype tcell = Timestamp int | NaT

text \<open>
  One dictionary of \<open>campaign_data\<close>. A key may be absent from a dictionary
  (\<open>None\<close>); \<open>pd.DataFrame\<close> then leaves NaN in that row, provided some other
  dictionary of the batch has the key. \<open>campaign_id\<close> holds the text that
  \<open>str\<close> gives for the identifier.
\<close>

record campaign =
  campaign_id :: "string option"
  cost :: "cell option"
  impression :: "cell option"
  click :: "cell option"
  action :: "cell option"
  purchase :: "cell option"
  purchase_value :: "cell option"
  create_time :: "tcell option"

text \<open>A row of the data frame after preprocessing (lines 45 to 55).\<close>

record row =
  row_campaign_id :: string
  row_cost :: real
  row_impression :: real
  row_click :: real
  row_action :: real
  row_purchase :: real
  row_purchase_value :: real
  roas :: real
  cpc :: fnum
  cpa :: fnum
  create_time_dt :: tcell

datatype budget_status = Unchanged | Increased | Decreased

text \<open>
  The reason is a text assembled from fixed sentences; each constructor stands
  for one sentence of the source with the values it formats, and the reason is
  the list of its sentences in order.
\<close>

datatype fragment =
    Default_Stable
  | New_High_CPC fnum fnum
  | New_Normal
  | Roas_Excellent real real real real
  | Roas_Poor real real
  | Suppressed_Note
  | Low_Budget_Warning

text \<open>The three local variables that the rules of the loop body assign.\<close>

record verdict =
  v_new_budget :: real
  v_reason :: "fragment list"
  v_status :: budget_status

text \<open>
  One dictionary of the result list (lines 117 to 126). \<open>d_campaign_id\<close> is the
  key \<open>campaign_id\<close>; \<open>key_metric_value\<close> holds the ROAS that the text
  \<open>ROAS: ...\<close> formats.
\<close>

record decision =
  d_campaign_id :: string
  old_budget :: real
  new_budget :: real
  adjustment_amount :: real
  adjustment_percent :: real
  status :: budget_status
  reason :: "fragment list"
  key_metric_value :: real

datatype exn = KeyError string

datatype outcome =
    Error_Object string
  | Decisions "decision list"
  | Raised exn

section \<open>The tier table\<close>

definition get_adjustment_percentage_rules :: "real \<Rightarrow> real" where
  "get_adjustment_percentage_rules daily_spend =
     (if daily_spend \<le> 50 then 2
      else if 50 < daily_spend \<and> daily_spend \<le> 100 then 1
      else if 100 < daily_spend \<and> daily_spend \<le> 500 then 1 / 2
      else 3 / 10)"

section \<open>Preprocessing\<close>

text \<open>\<open>pd.to_numeric(df[col], errors='coerce').fillna(0)\<close> on one cell.\<close>

definition to_numeric_fillna :: "cell option \<Rightarrow> real" where
  "to_numeric_fillna c = (case c of Some (Numeric x) \<Rightarrow> x | _ \<Rightarrow> 0)"

definition to_datetime :: "tcell option \<Rightarrow> tcell" where
  "to_datetime c = (case c of Some t \<Rightarrow> t | None \<Rightarrow> NaT)"

definition str_id :: "string option \<Rightarrow> string" where
  "str_id c = (case c of Some s \<Rightarrow> s | None \<Rightarrow> ''nan'')"

definition derive :: "campaign \<Rightarrow> row" where
  "derive c =
     (let cost' = to_numeric_fillna (cost c);
          click' = to_numeric_fillna (click c);
          action' = to_numeric_fillna (action c);
          purchase_value' = to_numeric_fillna (purchase_value c)
      in \<lparr> row_campaign_id = str_id (campaign_id c),
           row_cost = cost',
           row_impression = to_numeric_fillna (impression c),
           row_click = click',
           row_action = action',
           row_purchase = to_numeric_fillna (purchase c),
           row_purchase_value = purchase_value',
           roas = (if 0 < cost' then purchase_value' / cost' else 0),
           cpc = (if 0 < click' then Fin (cost' / click') else PInf),
           cpa = (if 0 < action' then Fin (cost' / action') else PInf),
           create_time_dt = to_datetime (create_time c) \<rparr>)"

text \<open>
  The columns the function reads, in the order it reads them; reading a column
  that no dictionary of the batch has raises \<open>KeyError\<close>.
\<close>

definition has_column :: "(campaign \<Rightarrow> 'a option) \<Rightarrow> campaign list \<Rightarrow> bool" where
  "has_column f cs = list_ex (\<lambda>c. f c \<noteq> None) cs"

definition missing_column :: "campaign list \<Rightarrow> string option" where
  "missing_column cs =
     (if \<not> has_column cost cs then Some ''cost''
      else if \<not> has_column impression cs then Some ''impression''
      else if \<not> has_column click cs then Some ''click''
      else if \<not> has_column action cs then Some ''action''
      else if \<not> has_column purchase cs then Some ''purchase''
      else if \<not> has_column purchase_value cs then Some ''purchase_value''
      else if \<not> has_column create_time cs then Some ''create_time''
      else if \<not> has_column campaign_id cs then Some ''campaign_id''
      else None)"

text \<open>\<open>df[df['cpc'] != np.inf]['cpc'].mean()\<close>: NaN when no row is selected.\<close>

definition finite_cpcs :: "row list \<Rightarrow> real list" where
  "finite_cpcs rows = concat (map (\<lambda>r. case cpc r of Fin x \<Rightarrow> [x] | _ \<Rightarrow> []) rows)"

definition avg_cpc_all :: "row list \<Rightarrow> fnum" where
  "avg_cpc_all rows =
     (let xs = finite_cpcs rows
      in if xs = [] then NaN else Fin (sum_list xs / of_nat (length xs)))"

section \<open>The rules\<close>

definition hours24 :: int where
  "hours24 = 24 * 3600 * 1000000000"

text \<open>Line 77: \<open>pd.notna(create_time) and (now - create_time) < timedelta(hours=24)\<close>.\<close>

definition is_new :: "int \<Rightarrow> tcell \<Rightarrow> bool" where
  "is_new now ct = (case ct of NaT \<Rightarrow> False | Timestamp t \<Rightarrow> now - t < hours24)"

text \<open>Rules 1 and 2 (lines 71 to 99).\<close>

definition apply_rules :: "real \<Rightarrow> int \<Rightarrow> row list \<Rightarrow> row \<Rightarrow> verdict" where
  "apply_rules target_roas now rows r =
     (let current_budget = row_cost r
      in if is_new now (create_time_dt r) then
           (let avg = avg_cpc_all rows
            in if fgt (cpc r) (fmul avg (13 / 10)) then
                 \<lparr> v_new_budget = of_int (py_round (max (current_budget * (1 / 2)) 1)),
                   v_reason = [New_High_CPC (cpc r) avg],
                   v_status = Decreased \<rparr>
               else
                 \<lparr> v_new_budget = current_budget,
                   v_reason = [New_Normal],
                   v_status = Unchanged \<rparr>)
         else
           (let target_roas_value = target_roas / 100
            in if target_roas_value * (12 / 10) < roas r then
                 (let max_increase_factor = get_adjustment_percentage_rules current_budget;
                      increase_amount = current_budget * max_increase_factor;
                      nb = of_int (py_round (current_budget + increase_amount))
                  in \<lparr> v_new_budget = nb,
                       v_reason = [Roas_Excellent (roas r) target_roas_value
                                     (max_increase_factor * 100) nb],
                       v_status = Increased \<rparr>)
               else if 0 < roas r \<and> roas r < target_roas_value * (8 / 10) then
                 \<lparr> v_new_budget = of_int (py_round (max (current_budget * (7 / 10)) 1)),
                   v_reason = [Roas_Poor (roas r) target_roas_value],
                   v_status = Decreased \<rparr>
               else
                 \<lparr> v_new_budget = current_budget,
                   v_reason = [Default_Stable],
                   v_status = Unchanged \<rparr>))"

text \<open>Rule 3 (lines 102 to 106): a change of less than 5 is not made.\<close>

definition suppress_small_change :: "real \<Rightarrow> verdict \<Rightarrow> verdict" where
  "suppress_small_change current_budget v =
     (if \<bar>v_new_budget v - current_budget\<bar> < 5 then
        \<lparr> v_new_budget = current_budget,
          v_reason = (if v_status v \<noteq> Unchanged then v_reason v @ [Suppressed_Note]
                      else v_reason v),
          v_status = Unchanged \<rparr>
      else v)"

text \<open>Rule 4 (line 109): \<open>new_budget = int(round(new_budget))\<close>.\<close>

definition round_budget :: "verdict \<Rightarrow> verdict" where
  "round_budget v = v\<lparr> v_new_budget := of_int (py_round (v_new_budget v)) \<rparr>"

text \<open>Rule 5 (lines 113 and 114): the low-budget warning.\<close>

definition low_budget_flag :: "real \<Rightarrow> verdict \<Rightarrow> verdict" where
  "low_budget_flag current_budget v =
     (if v_new_budget v < max (current_budget * (2 / 10)) 1 \<and> v_status v = Decreased then
        v\<lparr> v_reason := v_reason v @ [Low_Budget_Warning] \<rparr>
      else v)"

text \<open>The dictionary appended to the results (lines 117 to 126).\<close>

definition assemble :: "row \<Rightarrow> verdict \<Rightarrow> decision" where
  "assemble r v =
     (let current_budget = row_cost r
      in \<lparr> d_campaign_id = row_campaign_id r,
           old_budget = current_budget,
           new_budget = v_new_budget v,
           adjustment_amount = v_new_budget v - current_budget,
           adjustment_percent =
             (if 0 < current_budget
              then py_round2 ((v_new_budget v - current_budget) / current_budget * 100)
              else 0),
           status = v_status v,
           reason = v_reason v,
           key_metric_value = roas r \<rparr>)"

text \<open>The body of the loop over the rows.\<close>

definition process_row :: "real \<Rightarrow> int \<Rightarrow> row list \<Rightarrow> row \<Rightarrow> decision" where
  "process_row target_roas now rows r =
     assemble r
       (low_budget_flag (row_cost r)
          (round_budget
             (suppress_small_change (row_cost r)
                (apply_rules target_roas now rows r))))"

text \<open>
  \<open>analyze_campaigns\<close>; the time that \<open>datetime.now()\<close> returns is the
  parameter \<open>now\<close>, in nanoseconds like the timestamps. The function returns
  the error dictionary, or the list of decisions, or it raises.
\<close>

definition analyze_campaigns :: "real \<Rightarrow> real \<Rightarrow> campaign list \<Rightarrow> int \<Rightarrow> outcome" where
  "analyze_campaigns total_budget target_roas campaign_data now =
     (if campaign_data = [] then Error_Object ''Campaign data is empty.''
      else case missing_column campaign_data of
             Some k \<Rightarrow> Raised (KeyError k)
           | None \<Rightarrow>
               (let rows = map derive campaign_data
                in Decisions (map (process_row target_roas now rows) rows)))"

section \<open>The endpoint\<close>

text \<open>The body of a request as \<open>request.get_json()\<close> returns it.\<close>

datatype json =
    JNull
  | JBool bool
  | JNum real
  | JStr string
  | JArr "json list"
  | JObj "(string \<times> json) list"

text \<open>Python's truth value of a parsed JSON value.\<close>

fun truthy :: "json \<Rightarrow> bool" where
  "truthy JNull = False"
| "truthy (JBool b) = b"
| "truthy (JNum x) = (x \<noteq> 0)"
| "truthy (JStr s) = (s \<noteq> [])"
| "truthy (JArr xs) = (xs \<noteq> [])"
| "truthy (JObj kvs) = (kvs \<noteq> [])"

text \<open>\<open>data.get(k)\<close> on a dictionary; of a repeated key the parser keeps the last value.\<close>

definition dict_get :: "(string \<times> json) list \<Rightarrow> string \<Rightarrow> json" where
  "dict_get kvs k = (case map_of (rev kvs) k of Some v \<Rightarrow> v | None \<Rightarrow> JNull)"

text \<open>
  What the endpoint does with the body up to its call of the core (lines 136 to
  148): it answers with an error and a status code, or it fails inside the
  \<open>try\<close> block and answers 500, or it calls \<open>analyze_campaigns\<close> on three values.
\<close>

datatype endpoint_step =
    Rejected string nat
  | Internal_Error
  | Core_Called json json json

definition analyze_budget_endpoint :: "json \<Rightarrow> endpoint_step" where
  "analyze_budget_endpoint data =
     (if \<not> truthy data then Rejected ''Invalid JSON'' 400
      else case data of
             JObj kvs \<Rightarrow>
               (let total_budget = dict_get kvs ''total_budget'';
                    target_roas = dict_get kvs ''target_roas'';
                    campaign_data = dict_get kvs ''campaign_data''
                in if \<not> (truthy total_budget \<and> truthy target_roas \<and> truthy campaign_data)
                   then Rejected
                     ''Missing required parameters: total_budget, target_roas, campaign_data'' 400
                   else Core_Called total_budget target_roas campaign_data)
           | _ \<Rightarrow> Internal_Error)"

section \<open>Example inputs\<close>

text \<open>
  A campaign whose dictionary has every key: its cost, its clicks, its purchase
  value and its creation time are the parameters.
\<close>

definition example_campaign :: "real \<Rightarrow> real \<Rightarrow> real \<Rightarrow> tcell \<Rightarrow> campaign" where
  "example_campaign c k pv t =
     \<lparr> campaign_id = Some ''c1'',
       cost = Some (Numeric c),
       impression = Some (Numeric 1000),
       click = Some (Numeric k),
       action = Some NonNumeric,
       purchase = Some (Numeric 0),
       purchase_value = Some (Numeric pv),
       create_time = Some t \<rparr>"

section \<open>Rounding\<close>

lemma py_round_of_int: "py_round (of_int n) = n"
  by (simp add: py_round_def)

lemma py_round_ge_floor: "\<lfloor>x\<rfloor> \<le> py_round x"
  by (simp add: py_round_def Let_def)

lemma py_round_mono_int: "of_int n \<le> x \<Longrightarrow> n \<le> py_round x"
  using py_round_ge_floor [of x] le_floor_iff [of n x] by linarith

lemma py_round_lower: "x - 1 / 2 \<le> of_int (py_round x)"
  unfolding py_round_def Let_def by (simp; linarith)

lemma py_round_upper: "of_int (py_round x) \<le> x + 1 / 2"
  unfolding py_round_def Let_def by (simp; linarith)

section \<open>The shape of a result\<close>

lemma analyze_campaigns_Decisions:
  "analyze_campaigns tb tr cd now = Decisions ds \<longleftrightarrow>
     cd \<noteq> [] \<and> missing_column cd = None \<and>
     ds = map (process_row tr now (map derive cd)) (map derive cd)"
  by (auto simp add: analyze_campaigns_def Let_def split: option.splits)

lemma status_process_row:
  "status (process_row tr now rows r) =
     v_status (suppress_small_change (row_cost r) (apply_rules tr now rows r))"
  by (simp add: process_row_def assemble_def low_budget_flag_def round_budget_def Let_def)

lemma new_budget_process_row:
  "new_budget (process_row tr now rows r) =
     of_int (py_round (v_new_budget
       (suppress_small_change (row_cost r) (apply_rules tr now rows r))))"
  by (simp add: process_row_def assemble_def low_budget_flag_def round_budget_def Let_def)

lemma old_budget_process_row: "old_budget (process_row tr now rows r) = row_cost r"
  by (simp add: process_row_def assemble_def Let_def)

lemma reason_process_row:
  "reason (process_row tr now rows r) =
     v_reason (low_budget_flag (row_cost r) (round_budget
       (suppress_small_change (row_cost r) (apply_rules tr now rows r))))"
  by (simp add: process_row_def assemble_def Let_def)

lemma decision_nth:
  assumes "analyze_campaigns tb tr cd now = Decisions ds" and "i < length cd"
  shows "ds ! i = process_row tr now (map derive cd) (derive (cd ! i))"
  using assms by (simp add: analyze_campaigns_Decisions)

text \<open>The definitions that a run of the whole function on a concrete batch unfolds.\<close>

lemmas pipeline_defs =
  analyze_campaigns_def missing_column_def has_column_def process_row_def derive_def
  to_numeric_fillna_def to_datetime_def str_id_def apply_rules_def is_new_def
  suppress_small_change_def round_budget_def low_budget_flag_def assemble_def
  py_round_def py_round2_def get_adjustment_percentage_rules_def
  avg_cpc_all_def finite_cpcs_def hours24_def example_campaign_def Let_def

section \<open>The total budget\<close>

text \<open>
  C9. Two evaluations that differ in \<open>total_budget\<close> only return the same
  result: the total budget has no influence on any decision, so it is no cap on
  the sum of the adjusted budgets either.
\<close>

theorem total_budget_noninterference:
  "analyze_campaigns tb1 target_roas campaign_data now =
   analyze_campaigns tb2 target_roas campaign_data now"
  by (simp add: analyze_campaigns_def)

text \<open>An evaluation under a total budget of 100 that emits a new budget of 120.\<close>

lemma total_budget_no_cap:
  "map new_budget
     (case analyze_campaigns 100 150 [example_campaign 40 10 80 NaT] 0 of
        Decisions ds \<Rightarrow> ds | _ \<Rightarrow> []) = [120]
   \<and> (100::real) < 120"
  by (simp add: pipeline_defs)

section \<open>The low-budget warning\<close>

text \<open>
  C10. Where the status is \<open>decreased\<close> and the new budget is below
  \<open>max(current_budget * 0.2, 1)\<close>, rule 5 appends the pause warning to the reason
  and changes nothing else: the status and the new budget stay as they were.
\<close>

theorem low_budget_flag_frame:
  assumes "v_status v = Decreased"
    and "v_new_budget v < max (current_budget * (2 / 10)) 1"
  shows "v_reason (low_budget_flag current_budget v) = v_reason v @ [Low_Budget_Warning]
       \<and> v_status (low_budget_flag current_budget v) = v_status v
       \<and> v_new_budget (low_budget_flag current_budget v) = v_new_budget v
       \<and> low_budget_flag current_budget v = v\<lparr> v_reason := v_reason v @ [Low_Budget_Warning] \<rparr>"
  using assms by (simp add: low_budget_flag_def)

theorem low_budget_flag_frame_witness:
  "v_status \<lparr> v_new_budget = 10, v_reason = [Roas_Poor (1 / 2) (3 / 2)], v_status = Decreased \<rparr>
     = Decreased
   \<and> v_new_budget \<lparr> v_new_budget = 10, v_reason = [Roas_Poor (1 / 2) (3 / 2)], v_status = Decreased \<rparr>
        < max (100 * (2 / 10)) 1
   \<and> low_budget_flag 100
        \<lparr> v_new_budget = 10, v_reason = [Roas_Poor (1 / 2) (3 / 2)], v_status = Decreased \<rparr>
       = \<lparr> v_new_budget = 10, v_reason = [Roas_Poor (1 / 2) (3 / 2), Low_Budget_Warning],
           v_status = Decreased \<rparr>"
  using low_budget_flag_frame
    [of "\<lparr> v_new_budget = 10, v_reason = [Roas_Poor (1 / 2) (3 / 2)], v_status = Decreased \<rparr>" 100]
  by simp

section \<open>Scenario C\<close>

text \<open>
  At the input of scenario C (an established campaign, cost 600, ROAS 0.5,
  target 150) the decision is 420, \<open>decreased\<close>, and its reason is the sentence of
  the ROAS rule alone: 420 is not below \<open>max(600 * 0.2, 1) = 120\<close>, so no warning
  is appended.
\<close>

theorem scenario_C_counterexample:
  "analyze_campaigns 1000 150 [example_campaign 600 10 300 NaT] 0 =
     Decisions [\<lparr> d_campaign_id = ''c1'', old_budget = 600, new_budget = 420,
                  adjustment_amount = - 180, adjustment_percent = - 30,
                  status = Decreased, reason = [Roas_Poor (1 / 2) (3 / 2)],
                  key_metric_value = 1 / 2 \<rparr>]
   \<and> Low_Budget_Warning \<notin> set [Roas_Poor (1 / 2) (3 / 2)]
   \<and> \<not> ((420::real) < max (600 * (2 / 10)) 1)"
  by (simp add: pipeline_defs)

text \<open>
  C1, amended. For an established campaign with current budget 600 and ROAS 0.5
  under a target of 150, whatever else the batch holds, the new budget is 420
  and the status \<open>decreased\<close>; 420 is not below \<open>max(current_budget * 0.2, 1)\<close>,
  and the reason carries no low-budget warning.
\<close>

theorem scenario_C:
  assumes "analyze_campaigns total_budget 150 campaign_data now = Decisions ds"
    and "i < length campaign_data"
    and "\<not> is_new now (create_time_dt (derive (campaign_data ! i)))"
    and "row_cost (derive (campaign_data ! i)) = 600"
    and "roas (derive (campaign_data ! i)) = 1 / 2"
  shows "new_budget (ds ! i) = 420 \<and> status (ds ! i) = Decreased
       \<and> reason (ds ! i) = [Roas_Poor (1 / 2) (3 / 2)]
       \<and> Low_Budget_Warning \<notin> set (reason (ds ! i))
       \<and> \<not> (new_budget (ds ! i) < max (old_budget (ds ! i) * (2 / 10)) 1)"
proof -
  let ?r = "derive (campaign_data ! i)"
  have d: "ds ! i = process_row 150 now (map derive campaign_data) ?r"
    using assms(1,2) by (rule decision_nth)
  have v: "apply_rules 150 now (map derive campaign_data) ?r =
      \<lparr> v_new_budget = 420, v_reason = [Roas_Poor (1 / 2) (3 / 2)], v_status = Decreased \<rparr>"
    using assms(3,4,5) by (simp add: apply_rules_def Let_def py_round_def)
  show ?thesis
    unfolding d process_row_def v
    by (simp add: suppress_small_change_def round_budget_def low_budget_flag_def
        assemble_def Let_def assms(4) py_round_def)
qed

theorem scenario_C_witness:
  "analyze_campaigns 1000 150 [example_campaign 600 10 300 (Timestamp 0)] hours24 =
     Decisions [\<lparr> d_campaign_id = ''c1'', old_budget = 600, new_budget = 420,
                  adjustment_amount = - 180, adjustment_percent = - 30,
                  status = Decreased, reason = [Roas_Poor (1 / 2) (3 / 2)],
                  key_metric_value = 1 / 2 \<rparr>]
   \<and> (0::nat) < length [example_campaign 600 10 300 (Timestamp 0)]
   \<and> \<not> is_new hours24
        (create_time_dt (derive ([example_campaign 600 10 300 (Timestamp 0)] ! 0)))
   \<and> row_cost (derive ([example_campaign 600 10 300 (Timestamp 0)] ! 0)) = 600
   \<and> roas (derive ([example_campaign 600 10 300 (Timestamp 0)] ! 0)) = 1 / 2"
proof -
  have a: "analyze_campaigns 1000 150 [example_campaign 600 10 300 (Timestamp 0)] hours24 =
     Decisions [\<lparr> d_campaign_id = ''c1'', old_budget = 600, new_budget = 420,
                  adjustment_amount = - 180, adjustment_percent = - 30,
                  status = Decreased, reason = [Roas_Poor (1 / 2) (3 / 2)],
                  key_metric_value = 1 / 2 \<rparr>]"
    by (simp add: pipeline_defs)
  have b: "(0::nat) < length [example_campaign 600 10 300 (Timestamp 0)]" by simp
  have c: "\<not> is_new hours24
        (create_time_dt (derive ([example_campaign 600 10 300 (Timestamp 0)] ! 0)))"
    by (simp add: pipeline_defs)
  have d: "row_cost (derive ([example_campaign 600 10 300 (Timestamp 0)] ! 0)) = 600"
    by (simp add: pipeline_defs)
  have e: "roas (derive ([example_campaign 600 10 300 (Timestamp 0)] ! 0)) = 1 / 2"
    by (simp add: pipeline_defs)
  from scenario_C [OF a b c d e] a b c d e show ?thesis by simp
qed

section \<open>The minimum change\<close>

text \<open>
  A cost of 40.25 that the rules leave alone: the computed budget differs from
  the old one by 0, the status is \<open>unchanged\<close>, and the emitted new budget is 40,
  not the old budget 40.25, because rule 4 rounds it.
\<close>

theorem minimum_change_counterexample:
  "analyze_campaigns 1000 150 [example_campaign (161 / 4) 10 0 NaT] 0 =
     Decisions [\<lparr> d_campaign_id = ''c1'', old_budget = 161 / 4, new_budget = 40,
                  adjustment_amount = - (1 / 4), adjustment_percent = - (31 / 50),
                  status = Unchanged, reason = [Default_Stable],
                  key_metric_value = 0 \<rparr>]
   \<and> \<bar>v_new_budget (apply_rules 150 0 (map derive [example_campaign (161 / 4) 10 0 NaT])
          (derive (example_campaign (161 / 4) 10 0 NaT))) - 161 / 4\<bar> < 5
   \<and> (40::real) \<noteq> 161 / 4"
  by (simp add: pipeline_defs)

text \<open>
  C2, amended. For every record of a successful evaluation, if the budget that
  rules 1 and 2 compute differs from the old budget by less than 5, the emitted
  status is \<open>unchanged\<close> and the emitted new budget is the old budget rounded to
  an integer, hence the old budget itself when that is an integer; the reason
  is the rule's reason, followed by the suppression note when the rule had
  decided an increase or a decrease.
\<close>

theorem minimum_change:
  assumes "analyze_campaigns tb tr cd now = Decisions ds"
    and "i < length cd"
    and "\<bar>v_new_budget (apply_rules tr now (map derive cd) (derive (cd ! i)))
          - row_cost (derive (cd ! i))\<bar> < 5"
  shows "status (ds ! i) = Unchanged
       \<and> new_budget (ds ! i) = of_int (py_round (old_budget (ds ! i)))
       \<and> (old_budget (ds ! i) \<in> \<int> \<longrightarrow> new_budget (ds ! i) = old_budget (ds ! i))
       \<and> reason (ds ! i) =
           v_reason (apply_rules tr now (map derive cd) (derive (cd ! i)))
           @ (if v_status (apply_rules tr now (map derive cd) (derive (cd ! i))) = Unchanged
              then [] else [Suppressed_Note])"
proof -
  let ?r = "derive (cd ! i)"
  let ?v = "apply_rules tr now (map derive cd) ?r"
  have d: "ds ! i = process_row tr now (map derive cd) ?r"
    using assms(1,2) by (rule decision_nth)
  have s: "suppress_small_change (row_cost ?r) ?v =
      \<lparr> v_new_budget = row_cost ?r,
        v_reason = v_reason ?v @ (if v_status ?v = Unchanged then [] else [Suppressed_Note]),
        v_status = Unchanged \<rparr>"
    using assms(3) by (simp add: suppress_small_change_def)
  have st: "status (ds ! i) = Unchanged"
    by (simp add: d status_process_row s)
  have nb: "new_budget (ds ! i) = of_int (py_round (old_budget (ds ! i)))"
    by (simp add: d new_budget_process_row old_budget_process_row s)
  have int: "old_budget (ds ! i) \<in> \<int> \<longrightarrow> new_budget (ds ! i) = old_budget (ds ! i)"
    unfolding nb by (auto simp add: Ints_def py_round_of_int)
  have re: "reason (ds ! i) =
      v_reason ?v @ (if v_status ?v = Unchanged then [] else [Suppressed_Note])"
    by (simp add: d reason_process_row s round_budget_def low_budget_flag_def)
  from st nb int re show ?thesis by blast
qed

theorem minimum_change_witness:
  "analyze_campaigns 1000 150 [example_campaign 10 10 5 NaT] 0 =
     Decisions [\<lparr> d_campaign_id = ''c1'', old_budget = 10, new_budget = 10,
                  adjustment_amount = 0, adjustment_percent = 0,
                  status = Unchanged, reason = [Roas_Poor (1 / 2) (3 / 2), Suppressed_Note],
                  key_metric_value = 1 / 2 \<rparr>]
   \<and> v_new_budget (apply_rules 150 0 (map derive [example_campaign 10 10 5 NaT])
          (derive ([example_campaign 10 10 5 NaT] ! 0))) = 7
   \<and> \<bar>(7::real) - row_cost (derive ([example_campaign 10 10 5 NaT] ! 0))\<bar> < 5"
proof -
  have a: "analyze_campaigns 1000 150 [example_campaign 10 10 5 NaT] 0 =
     Decisions [\<lparr> d_campaign_id = ''c1'', old_budget = 10, new_budget = 10,
                  adjustment_amount = 0, adjustment_percent = 0,
                  status = Unchanged, reason = [Roas_Poor (1 / 2) (3 / 2), Suppressed_Note],
                  key_metric_value = 1 / 2 \<rparr>]"
    by (simp add: pipeline_defs)
  have b: "(0::nat) < length [example_campaign 10 10 5 NaT]" by simp
  have v: "v_new_budget (apply_rules 150 0 (map derive [example_campaign 10 10 5 NaT])
          (derive ([example_campaign 10 10 5 NaT] ! 0))) = 7"
    by (simp add: pipeline_defs)
  have c: "\<bar>v_new_budget (apply_rules 150 0 (map derive [example_campaign 10 10 5 NaT])
          (derive ([example_campaign 10 10 5 NaT] ! 0)))
        - row_cost (derive ([example_campaign 10 10 5 NaT] ! 0))\<bar> < 5"
    unfolding v by (simp add: pipeline_defs)
  from minimum_change [OF a b c] a v c show ?thesis by simp
qed

section \<open>The emitted budget is an integer\<close>

lemma apply_rules_nonneg:
  assumes "0 \<le> row_cost r"
  shows "0 \<le> v_new_budget (apply_rules tr now rows r)"
proof -
  have a: "(0::real) \<le> of_int (py_round (max (row_cost r * k) 1))" for k
    using py_round_mono_int [of 0 "max (row_cost r * k) 1"] by simp
  have "0 \<le> row_cost r * get_adjustment_percentage_rules (row_cost r)"
    using assms by (simp add: get_adjustment_percentage_rules_def)
  then have b: "(0::real) \<le> of_int (py_round (row_cost r
      + row_cost r * get_adjustment_percentage_rules (row_cost r)))"
    using assms py_round_mono_int [of 0 "row_cost r
      + row_cost r * get_adjustment_percentage_rules (row_cost r)"] by simp
  show ?thesis
    using a [of "1 / 2"] a [of "7 / 10"] b assms by (simp add: apply_rules_def Let_def)
qed

lemma suppress_nonneg:
  assumes "0 \<le> current_budget" and "0 \<le> v_new_budget v"
  shows "0 \<le> v_new_budget (suppress_small_change current_budget v)"
  using assms by (simp add: suppress_small_change_def)

text \<open>
  A negative cost is a number, so it is kept as the current budget; the rules
  leave it alone and the emitted new budget is negative.
\<close>

theorem new_budget_counterexample:
  "analyze_campaigns 1000 150 [example_campaign (- 10) 10 0 NaT] 0 =
     Decisions [\<lparr> d_campaign_id = ''c1'', old_budget = - 10, new_budget = - 10,
                  adjustment_amount = 0, adjustment_percent = 0,
                  status = Unchanged, reason = [Default_Stable],
                  key_metric_value = 0 \<rparr>]
   \<and> \<not> (0::real) \<le> - 10"
  by (simp add: pipeline_defs)

text \<open>
  C4, amended. For every record of every successful evaluation the emitted new
  budget is an integer, and it is non-negative whenever the record's cost (the
  old budget) is non-negative.
\<close>

theorem new_budget_integer:
  assumes "analyze_campaigns tb tr cd now = Decisions ds"
    and "i < length cd"
  shows "new_budget (ds ! i) \<in> \<int>
       \<and> (0 \<le> old_budget (ds ! i) \<longrightarrow> 0 \<le> new_budget (ds ! i))"
proof -
  let ?r = "derive (cd ! i)"
  have d: "ds ! i = process_row tr now (map derive cd) ?r"
    using assms by (rule decision_nth)
  have int: "new_budget (ds ! i) \<in> \<int>"
    by (simp add: d new_budget_process_row)
  have "0 \<le> new_budget (ds ! i)" if "0 \<le> old_budget (ds ! i)"
  proof -
    from that have c: "0 \<le> row_cost ?r" by (simp add: d old_budget_process_row)
    then have "0 \<le> v_new_budget (suppress_small_change (row_cost ?r)
        (apply_rules tr now (map derive cd) ?r))"
      by (intro suppress_nonneg apply_rules_nonneg)
    then show ?thesis
      using py_round_mono_int [of 0] by (simp add: d new_budget_process_row)
  qed
  with int show ?thesis by blast
qed

theorem new_budget_integer_witness:
  "analyze_campaigns 1000 150 [example_campaign 40 10 80 NaT] 0 =
     Decisions [\<lparr> d_campaign_id = ''c1'', old_budget = 40, new_budget = 120,
                  adjustment_amount = 80, adjustment_percent = 200,
                  status = Increased, reason = [Roas_Excellent 2 (3 / 2) 200 120],
                  key_metric_value = 2 \<rparr>]
   \<and> (0::nat) < length [example_campaign 40 10 80 NaT]
   \<and> (120::real) \<in> \<int> \<and> (0::real) \<le> 40 \<and> (0::real) \<le> 120"
proof -
  have a: "analyze_campaigns 1000 150 [example_campaign 40 10 80 NaT] 0 =
     Decisions [\<lparr> d_campaign_id = ''c1'', old_budget = 40, new_budget = 120,
                  adjustment_amount = 80, adjustment_percent = 200,
                  status = Increased, reason = [Roas_Excellent 2 (3 / 2) 200 120],
                  key_metric_value = 2 \<rparr>]"
    by (simp add: pipeline_defs)
  have b: "(0::nat) < length [example_campaign 40 10 80 NaT]" by simp
  from new_budget_integer [OF a b] a b show ?thesis by simp
qed

section \<open>Rule 5 after rules 1 to 4\<close>

text \<open>
  A decrease that survives rule 3 leaves at least half of the budget, less the
  rounding, so the condition of rule 5 does not hold after rules 1 to 4: no
  decision carries the warning.
\<close>

lemma decrease_not_low:
  assumes "nb = of_int (py_round (max (cb * k) 1))" and "1 / 2 \<le> k"
    and "5 \<le> \<bar>nb - cb\<bar>"
  shows "\<not> nb < max (cb * (2 / 10)) 1"
proof -
  have one: "1 \<le> nb"
    using py_round_mono_int [of 1 "max (cb * k) 1"] assms(1) by simp
  have low: "max (cb * k) 1 - 1 / 2 \<le> nb"
    using py_round_lower [of "max (cb * k) 1"] assms(1) by simp
  show ?thesis
  proof (cases "cb \<le> 5")
    case True
    with one show ?thesis by simp
  next
    case False
    then have "cb * (1 / 2) \<le> cb * k" using assms(2) by (intro mult_left_mono) auto
    with low have "cb * (1 / 2) - 1 / 2 \<le> nb" by linarith
    with False one show ?thesis by simp
  qed
qed

lemma low_budget_warning_never_emitted:
  "Low_Budget_Warning \<notin> set (reason (process_row tr now rows r))"
proof -
  let ?v = "apply_rules tr now rows r"
  let ?s = "suppress_small_change (row_cost r) ?v"
  have nowarn: "Low_Budget_Warning \<notin> set (v_reason ?v)"
    by (simp add: apply_rules_def Let_def)
  then have nowarn_s: "Low_Budget_Warning \<notin> set (v_reason (round_budget ?s))"
    by (simp add: suppress_small_change_def round_budget_def)
  have "\<not> (v_new_budget (round_budget ?s) < max (row_cost r * (2 / 10)) 1
      \<and> v_status (round_budget ?s) = Decreased)"
  proof
    assume a: "v_new_budget (round_budget ?s) < max (row_cost r * (2 / 10)) 1
      \<and> v_status (round_budget ?s) = Decreased"
    then have st: "v_status ?s = Decreased" by (simp add: round_budget_def)
    then have big: "5 \<le> \<bar>v_new_budget ?v - row_cost r\<bar>" and s: "?s = ?v"
      by (auto simp add: suppress_small_change_def split: if_splits)
    from st s have dv: "v_status ?v = Decreased" by simp
    then have "v_new_budget ?v = of_int (py_round (max (row_cost r * (1 / 2)) 1))
        \<or> v_new_budget ?v = of_int (py_round (max (row_cost r * (7 / 10)) 1))"
      by (simp add: apply_rules_def Let_def split: if_splits)
    then obtain k where k: "(1::real) / 2 \<le> k"
      and nb: "v_new_budget ?v = of_int (py_round (max (row_cost r * k) 1))"
      by (elim disjE) (rule that [of "1 / 2"], simp, simp, rule that [of "7 / 10"], simp, simp)
    from nb have "v_new_budget (round_budget ?s) = v_new_budget ?v"
      by (simp add: s round_budget_def py_round_of_int)
    with a decrease_not_low [OF nb k big] show False by simp
  qed
  then have "low_budget_flag (row_cost r) (round_budget ?s) = round_budget ?s"
    by (simp add: low_budget_flag_def)
  with nowarn_s show ?thesis by (simp add: reason_process_row)
qed

section \<open>Coercion of the numeric fields\<close>




section \<open>New campaigns without clicks\<close>

lemma finite_cpcs_Nil_iff:
  "finite_cpcs (map derive cd) = [] \<longleftrightarrow> \<not> list_ex (\<lambda>c. 0 < row_click (derive c)) cd"
proof (induction cd)
  case Nil
  then show ?case by (simp add: finite_cpcs_def)
next
  case (Cons c cd)
  have "cpc (derive c) = (if 0 < row_click (derive c)
      then Fin (row_cost (derive c) / row_click (derive c)) else PInf)"
    by (simp add: derive_def Let_def)
  with Cons show ?case by (simp add: finite_cpcs_def)
qed

lemma avg_cpc_all_cases:
  "avg_cpc_all (map derive cd) =
     (if list_ex (\<lambda>c. 0 < row_click (derive c)) cd
      then Fin (sum_list (finite_cpcs (map derive cd))
                  / of_nat (length (finite_cpcs (map derive cd))))
      else NaN)"
  by (simp add: avg_cpc_all_def Let_def finite_cpcs_Nil_iff)

text \<open>
  A batch of one new campaign without clicks: no record has a finite cost per
  click, the mean is NaN, the comparison is false and the budget stays.
\<close>

theorem new_zero_click_counterexample:
  "is_new 5 (create_time_dt (derive (example_campaign 100 0 0 (Timestamp 0))))
   \<and> row_click (derive (example_campaign 100 0 0 (Timestamp 0))) = 0
   \<and> cpc (derive (example_campaign 100 0 0 (Timestamp 0))) = PInf
   \<and> avg_cpc_all (map derive [example_campaign 100 0 0 (Timestamp 0)]) = NaN
   \<and> apply_rules 150 5 (map derive [example_campaign 100 0 0 (Timestamp 0)])
        (derive (example_campaign 100 0 0 (Timestamp 0))) =
       \<lparr> v_new_budget = 100, v_reason = [New_Normal], v_status = Unchanged \<rparr>
   \<and> analyze_campaigns 1000 150 [example_campaign 100 0 0 (Timestamp 0)] 5 =
       Decisions [\<lparr> d_campaign_id = ''c1'', old_budget = 100, new_budget = 100,
                    adjustment_amount = 0, adjustment_percent = 0,
                    status = Unchanged, reason = [New_Normal], key_metric_value = 0 \<rparr>]"
  by (simp add: pipeline_defs)

text \<open>
  C5, amended. For a campaign classified as new whose click count is 0, the
  cost per click is infinite. If some record of the batch has clicks, so that
  the mean of the finite costs per click exists, rule 1 halves the budget
  (\<open>round(max(current_budget * 0.5, 1))\<close>, status \<open>decreased\<close>); if no record has
  clicks, the mean is NaN and rule 1 leaves the budget unchanged.
\<close>

theorem new_zero_click:
  assumes "is_new now (create_time_dt (derive c))"
    and "row_click (derive c) = 0"
  shows "cpc (derive c) = PInf
       \<and> (if list_ex (\<lambda>c'. 0 < row_click (derive c')) cd
          then v_status (apply_rules target_roas now (map derive cd) (derive c)) = Decreased
             \<and> v_new_budget (apply_rules target_roas now (map derive cd) (derive c)) =
                 of_int (py_round (max (row_cost (derive c) * (1 / 2)) 1))
          else v_status (apply_rules target_roas now (map derive cd) (derive c)) = Unchanged
             \<and> v_new_budget (apply_rules target_roas now (map derive cd) (derive c)) =
                 row_cost (derive c))"
proof -
  have "cpc (derive c) = (if 0 < row_click (derive c)
      then Fin (row_cost (derive c) / row_click (derive c)) else PInf)"
    by (simp add: derive_def Let_def)
  with assms(2) have inf: "cpc (derive c) = PInf" by simp
  show ?thesis
    using assms(1) by (simp add: inf apply_rules_def Let_def avg_cpc_all_cases)
qed

theorem new_zero_click_witness:
  "is_new 5 (create_time_dt (derive (example_campaign 100 0 0 (Timestamp 0))))
   \<and> row_click (derive (example_campaign 100 0 0 (Timestamp 0))) = 0
   \<and> list_ex (\<lambda>c'. 0 < row_click (derive c'))
        [example_campaign 100 0 0 (Timestamp 0), example_campaign 30 10 0 NaT]
   \<and> v_status (apply_rules 150 5
        (map derive [example_campaign 100 0 0 (Timestamp 0), example_campaign 30 10 0 NaT])
        (derive (example_campaign 100 0 0 (Timestamp 0)))) = Decreased
   \<and> v_new_budget (apply_rules 150 5
        (map derive [example_campaign 100 0 0 (Timestamp 0), example_campaign 30 10 0 NaT])
        (derive (example_campaign 100 0 0 (Timestamp 0)))) = 50"
proof -
  have a: "is_new 5 (create_time_dt (derive (example_campaign 100 0 0 (Timestamp 0))))"
    by (simp add: pipeline_defs)
  have b: "row_click (derive (example_campaign 100 0 0 (Timestamp 0))) = 0"
    by (simp add: pipeline_defs)
  have e: "list_ex (\<lambda>c'. 0 < row_click (derive c'))
        [example_campaign 100 0 0 (Timestamp 0), example_campaign 30 10 0 NaT]"
    by (simp add: pipeline_defs)
  have d: "row_cost (derive (example_campaign 100 0 0 (Timestamp 0))) = 100"
    by (simp add: pipeline_defs)
  have p: "py_round (max (100 * (1 / 2)) 1) = 50"
    by (simp add: py_round_def)
  from new_zero_click [OF a b, of "[example_campaign 100 0 0 (Timestamp 0), example_campaign 30 10 0 NaT]" 150]
    a b e d p
  show ?thesis by simp
qed

section \<open>Established campaigns\<close>

text \<open>
  Under a negative target the ROAS 0 of an established campaign exceeds
  \<open>target * 1.2\<close>, and the budget is increased.
\<close>

theorem roas_zero_counterexample:
  "apply_rules (- 150) 0 (map derive [example_campaign 40 10 0 NaT])
       (derive (example_campaign 40 10 0 NaT)) =
     \<lparr> v_new_budget = 120, v_reason = [Roas_Excellent 0 (- (3 / 2)) 200 120],
       v_status = Increased \<rparr>
   \<and> \<not> is_new 0 (create_time_dt (derive (example_campaign 40 10 0 NaT)))
   \<and> roas (derive (example_campaign 40 10 0 NaT)) = 0
   \<and> analyze_campaigns 1000 (- 150) [example_campaign 40 10 0 NaT] 0 =
     Decisions [\<lparr> d_campaign_id = ''c1'', old_budget = 40, new_budget = 120,
                  adjustment_amount = 80, adjustment_percent = 200,
                  status = Increased, reason = [Roas_Excellent 0 (- (3 / 2)) 200 120],
                  key_metric_value = 0 \<rparr>]"
  by (simp add: pipeline_defs)

text \<open>
  C6, amended. For every established campaign with a ROAS of exactly 0 under a
  target that is not negative, the cut for underperformance does not apply
  (it needs \<open>0 < roas\<close>) and neither does the increase, so rule 2 decides
  \<open>unchanged\<close> with the new budget equal to the current budget; the emitted
  decision has status \<open>unchanged\<close> and the current budget rounded to an integer.
\<close>

theorem roas_zero_unchanged:
  assumes "\<not> is_new now (create_time_dt r)"
    and "roas r = 0"
    and "0 \<le> target_roas"
  shows "\<not> (0 < roas r \<and> roas r < target_roas / 100 * (8 / 10))
       \<and> apply_rules target_roas now rows r =
           \<lparr> v_new_budget = row_cost r, v_reason = [Default_Stable], v_status = Unchanged \<rparr>
       \<and> status (process_row target_roas now rows r) = Unchanged
       \<and> new_budget (process_row target_roas now rows r) = of_int (py_round (row_cost r))
       \<and> reason (process_row target_roas now rows r) = [Default_Stable]"
proof -
  have v: "apply_rules target_roas now rows r =
      \<lparr> v_new_budget = row_cost r, v_reason = [Default_Stable], v_status = Unchanged \<rparr>"
    using assms by (simp add: apply_rules_def Let_def)
  show ?thesis
    using assms(2)
    by (simp add: v status_process_row new_budget_process_row reason_process_row
        suppress_small_change_def round_budget_def low_budget_flag_def)
qed

theorem roas_zero_unchanged_witness:
  "\<not> is_new 0 (create_time_dt (derive (example_campaign 40 10 0 NaT)))
   \<and> roas (derive (example_campaign 40 10 0 NaT)) = 0
   \<and> (0::real) \<le> 150
   \<and> apply_rules 150 0 [derive (example_campaign 40 10 0 NaT)]
        (derive (example_campaign 40 10 0 NaT)) =
       \<lparr> v_new_budget = 40, v_reason = [Default_Stable], v_status = Unchanged \<rparr>
   \<and> status (process_row 150 0 [derive (example_campaign 40 10 0 NaT)]
        (derive (example_campaign 40 10 0 NaT))) = Unchanged
   \<and> new_budget (process_row 150 0 [derive (example_campaign 40 10 0 NaT)]
        (derive (example_campaign 40 10 0 NaT))) = 40"
proof -
  have a: "\<not> is_new 0 (create_time_dt (derive (example_campaign 40 10 0 NaT)))"
    by (simp add: pipeline_defs)
  have b: "roas (derive (example_campaign 40 10 0 NaT)) = 0"
    by (simp add: pipeline_defs)
  have c: "(0::real) \<le> 150" by simp
  have d: "row_cost (derive (example_campaign 40 10 0 NaT)) = 40"
    by (simp add: pipeline_defs)
  from roas_zero_unchanged [OF a b c, of "[derive (example_campaign 40 10 0 NaT)]"] a b d
  show ?thesis by (simp add: py_round_def)
qed



section \<open>Empty and incomplete requests\<close>

text \<open>
  The body \<open>{}\<close> has none of the three parameters, and it is falsy: the endpoint
  answers \<open>Invalid JSON\<close>, not that parameters are missing.
\<close>

theorem endpoint_counterexample:
  "analyze_budget_endpoint (JObj []) = Rejected ''Invalid JSON'' 400
   \<and> dict_get [] ''total_budget'' = JNull
   \<and> dict_get [] ''target_roas'' = JNull
   \<and> dict_get [] ''campaign_data'' = JNull
   \<and> ''Invalid JSON'' \<noteq>
       ''Missing required parameters: total_budget, target_roas, campaign_data''"
  by (simp add: analyze_budget_endpoint_def dict_get_def)

text \<open>
  C8, amended. The core returns the error object \<open>Campaign data is empty.\<close> for
  an empty batch. The endpoint rejects a body that is a non-empty object in
  which \<open>total_budget\<close>, \<open>target_roas\<close> or \<open>campaign_data\<close> is missing or falsy
  with the error that required parameters are missing, before it calls the
  core; a falsy body (the empty object among them) is rejected as
  \<open>Invalid JSON\<close>. The core is only ever called with three truthy values.
\<close>

theorem empty_and_missing:
  "analyze_campaigns total_budget target_roas [] now = Error_Object ''Campaign data is empty.''
   \<and> (kvs \<noteq> [] \<and> (\<not> truthy (dict_get kvs ''total_budget'')
                   \<or> \<not> truthy (dict_get kvs ''target_roas'')
                   \<or> \<not> truthy (dict_get kvs ''campaign_data''))
      \<longrightarrow> analyze_budget_endpoint (JObj kvs) =
           Rejected ''Missing required parameters: total_budget, target_roas, campaign_data'' 400)
   \<and> (\<not> truthy data \<longrightarrow> analyze_budget_endpoint data = Rejected ''Invalid JSON'' 400)
   \<and> (analyze_budget_endpoint data = Core_Called tb tr cd
      \<longrightarrow> truthy tb \<and> truthy tr \<and> truthy cd)"
  by (auto simp add: analyze_campaigns_def analyze_budget_endpoint_def Let_def
      split: json.splits if_splits)

theorem empty_and_missing_witness:
  "analyze_campaigns 1000 150 [] 0 = Error_Object ''Campaign data is empty.''
   \<and> analyze_budget_endpoint
        (JObj [(''total_budget'', JNum 1000), (''campaign_data'', JArr [])]) =
       Rejected ''Missing required parameters: total_budget, target_roas, campaign_data'' 400
   \<and> analyze_budget_endpoint (JObj [(''total_budget'', JNum 1000), (''target_roas'', JNum 150),
        (''campaign_data'', JArr [JObj [(''cost'', JNum 5)]])]) =
       Core_Called (JNum 1000) (JNum 150) (JArr [JObj [(''cost'', JNum 5)]])
   \<and> truthy (JNum 1000) \<and> truthy (JNum 150) \<and> truthy (JArr [JObj [(''cost'', JNum 5)]])
   \<and> analyze_budget_endpoint JNull = Rejected ''Invalid JSON'' 400"
proof -
  have k: "[(''total_budget'', JNum 1000), (''campaign_data'', JArr [])] \<noteq> []" by simp
  have m: "\<not> truthy (dict_get [(''total_budget'', JNum 1000), (''campaign_data'', JArr [])]
      ''target_roas'')"
    by (simp add: dict_get_def)
  have c: "analyze_budget_endpoint (JObj [(''total_budget'', JNum 1000), (''target_roas'', JNum 150),
        (''campaign_data'', JArr [JObj [(''cost'', JNum 5)]])]) =
       Core_Called (JNum 1000) (JNum 150) (JArr [JObj [(''cost'', JNum 5)]])"
    by (simp add: analyze_budget_endpoint_def dict_get_def)
  have n: "\<not> truthy JNull" by simp
  from empty_and_missing [of 1000 150 0
      "[(''total_budget'', JNum 1000), (''campaign_data'', JArr [])]" JNull]
    empty_and_missing [of 1000 150 0 "[(''total_budget'', JNum 1000), (''campaign_data'', JArr [])]"
       "JObj [(''total_budget'', JNum 1000), (''target_roas'', JNum 150),
        (''campaign_data'', JArr [JObj [(''cost'', JNum 5)]])]"
       "JNum 1000" "JNum 150" "JArr [JObj [(''cost'', JNum 5)]]"]
    k m c n
  show ?thesis by simp
qed

end
